theory Spec2Isabelle
  imports Complex_Main "HOL-Library.Word"
begin

section \<open>The DMG background resizer\<close>

text \<open>
  The program is the script \<^verbatim>\<open>apps/desktop/scripts/resize-dmg-bg.py\<close>: five statements
  in a straight line.
  \<^enum> \<^verbatim>\<open>img = Image.open(src)\<close>
  \<^enum> \<^verbatim>\<open>print(f"Before: {img.size}, DPI: {img.info.get('dpi')}")\<close>
  \<^enum> \<^verbatim>\<open>img = img.resize((590, 380), Image.LANCZOS)\<close>
  \<^enum> \<^verbatim>\<open>img.save(src, dpi=(72, 72))\<close>
  \<^enum> \<^verbatim>\<open>print(f"After:  (590, 380), DPI: (72, 72)")\<close>

  The script is embedded as a function on a world made of the file system and a log of
  the effects in the order they happen. Every statement that can raise returns either a
  value with the new world or the exception with the world at that moment.

  The three calls into the imaging library (Pillow) follow the library: \<open>resize\<close> has
  the library's two branches that do not run the requested filter, and \<open>save\<close> writes
  the density as the PNG format holds it, in whole pixels per metre. What is arithmetic
  on pixel data or on floats, or is decided by the operating system (the resampling
  kernel, the other metadata an encoder carries over, what a decoder reports for the
  metadata a file holds, the text of a float, the answer of the disk to a write), is a
  field of an environment record that every definition takes as a parameter, so that
  every theorem holds for all of them.
\<close>

subsection \<open>Python values and their text\<close>

datatype pyval = PyInt int | PyFloat "64 word" | PyTuple "pyval list"

definition digit :: "nat \<Rightarrow> char" where
  "digit d = ''0123456789'' ! d"

fun str_nat :: "nat \<Rightarrow> string" where
  "str_nat n = (if n < 10 then [digit n] else str_nat (n div 10) @ [digit (n mod 10)])"

declare str_nat.simps [simp del]

definition str_int :: "int \<Rightarrow> string" where
  "str_int i = (if i < 0 then CHR ''-'' # str_nat (nat (- i)) else str_nat (nat i))"

fun join :: "string \<Rightarrow> string list \<Rightarrow> string" where
  "join sep [] = []"
| "join sep [x] = x"
| "join sep (x # y # ys) = x @ sep @ join sep (y # ys)"

text \<open>
  \<open>repr\<close> of a number or a tuple. A tuple of one element is written with a trailing
  comma. The text of a float is the parameter \<open>fr\<close>.
\<close>

fun repr :: "(64 word \<Rightarrow> string) \<Rightarrow> pyval \<Rightarrow> string" where
  "repr fr (PyInt i) = str_int i"
| "repr fr (PyFloat x) = fr x"
| "repr fr (PyTuple vs) =
     ''('' @ join '', '' (map (repr fr) vs) @ (if length vs = 1 then '',)'' else '')'')"

text \<open>\<open>str\<close> of what \<^verbatim>\<open>dict.get\<close> returns: \<^verbatim>\<open>None\<close> when the key is absent.\<close>

definition str_opt :: "(64 word \<Rightarrow> string) \<Rightarrow> pyval option \<Rightarrow> string" where
  "str_opt fr v = (case v of None \<Rightarrow> ''None'' | Some x \<Rightarrow> repr fr x)"

text \<open>\<open>str\<close> of \<^verbatim>\<open>img.size\<close>, a tuple of two non-negative integers.\<close>

definition str_size :: "nat \<times> nat \<Rightarrow> string" where
  "str_size s = repr (\<lambda>_. []) (PyTuple [PyInt (int (fst s)), PyInt (int (snd s))])"

subsection \<open>Images, files and the world\<close>

type_synonym path = string

datatype resampling = NEAREST | BOX | BILINEAR | HAMMING | BICUBIC | LANCZOS

text \<open>
  An image has a mode (\<open>1\<close> for bilevel, \<open>P\<close> for palette, \<open>L\<close>, \<open>RGB\<close>, \<open>RGBA\<close> and
  so on), a size, pixel data and a dictionary of metadata.
\<close>

record 'p image =
  mode :: string
  size_img :: "nat \<times> nat"
  pixels :: 'p
  info :: "string \<rightharpoonup> pyval"

text \<open>
  A file is either an encoded image (its mode, size and pixel data, and under \<open>info\<close>
  the metadata the file holds, by the name of the chunk or tag that holds it), or bytes
  that no decoder identifies.
\<close>

datatype 'p blob = Raster "'p image" | Opaque "8 word list"

datatype event = Open path | Stdout string | Write path

record 'p world =
  files :: "path \<rightharpoonup> 'p blob"
  log :: "event list"

datatype error = FileNotFoundError | UnidentifiedImageError | MemoryError | OSError

datatype ('a, 'p) res = Ok 'a "'p world" | Raise error "'p world"

text \<open>
  The answer of the disk to a write: the file is replaced; or the write is refused and the
  file is as before; or the write fails part way and leaves the given content (\<open>None\<close>:
  the file is gone).
\<close>

datatype 'p write_outcome = Written | Denied | Torn "'p blob option"

record 'p env =
  resample :: "resampling \<Rightarrow> nat \<times> nat \<times> nat \<times> nat \<Rightarrow> nat \<times> nat \<Rightarrow> 'p image \<Rightarrow> 'p option"
  carried :: "(string \<rightharpoonup> pyval) \<Rightarrow> (string \<rightharpoonup> pyval)"
  reported :: "(string \<rightharpoonup> pyval) \<Rightarrow> (string \<rightharpoonup> pyval)"
  float_repr :: "64 word \<Rightarrow> string"
  disk_write :: "path \<Rightarrow> 'p blob \<Rightarrow> 'p write_outcome"

subsection \<open>The library calls of the script\<close>

text \<open>
  \<^verbatim>\<open>Image.open(path)\<close>: the buffer has the size and the pixel data of the file, and
  as \<open>info\<close> what the decoder reports for the metadata the file holds (a format stores a
  density in its own unit, and the decoder converts it back).
\<close>

definition Image_open :: "'p env \<Rightarrow> path \<Rightarrow> 'p world \<Rightarrow> ('p image, 'p) res" where
  "Image_open E p w =
     (let w' = w\<lparr>log := log w @ [Open p]\<rparr> in
      case files w p of
        None \<Rightarrow> Raise FileNotFoundError w'
      | Some (Opaque b) \<Rightarrow> Raise UnidentifiedImageError w'
      | Some (Raster f) \<Rightarrow> Ok (f\<lparr>info := reported E (info f)\<rparr>) w')"

definition print :: "string \<Rightarrow> 'p world \<Rightarrow> 'p world" where
  "print s w = w\<lparr>log := log w @ [Stdout s]\<rparr>"

text \<open>
  \<^verbatim>\<open>img.resize(size, resample)\<close> with no box, as the library's \<^verbatim>\<open>Image.resize\<close>
  does it. The source region is the whole frame \<open>(0, 0, width, height)\<close>.
  \<^item> An image that already has the requested size is returned as a copy
    (\<^verbatim>\<open>if self.size == size and box == (0, 0) + self.size: return self.copy()\<close>):
    no kernel runs.
  \<^item> For an image of mode \<open>1\<close> or \<open>P\<close> the filter is replaced by \<open>NEAREST\<close>
    (\<^verbatim>\<open>if self.mode in ("1", "P"): resample = Resampling.NEAREST\<close>).
  \<^item> Otherwise the kernel runs with the requested filter (for the modes \<open>LA\<close> and
    \<open>RGBA\<close> on premultiplied data, which is left to the kernel).

  The new buffer has the requested size and the mode and metadata of the old one. The call
  raises when the library cannot load or resample the pixel data (the kernel returns
  \<open>None\<close>); the model names that exception \<open>MemoryError\<close>.
\<close>

definition resize :: "'p env \<Rightarrow> 'p image \<Rightarrow> nat \<times> nat \<Rightarrow> resampling \<Rightarrow> error + 'p image" where
  "resize E im sz flt =
     (if size_img im = sz then Inr im
      else
        let flt' = (if mode im \<in> {''1'', ''P''} then NEAREST else flt) in
        case resample E flt' (0, 0, fst (size_img im), snd (size_img im)) sz im of
          None \<Rightarrow> Inl MemoryError
        | Some px \<Rightarrow> Inr (im\<lparr>size_img := sz, pixels := px\<rparr>))"

text \<open>
  \<^verbatim>\<open>img.save(path, dpi=d)\<close> to a path that ends in \<open>.png\<close>, as the library's PNG
  encoder does it. A PNG file holds its density in the chunk \<open>pHYs\<close>, in whole pixels
  per unit on each axis, with the unit 1 for the metre. The encoder writes
  \<^verbatim>\<open>int(dpi[0] / 0.0254 + 0.5)\<close> and \<^verbatim>\<open>int(dpi[1] / 0.0254 + 0.5)\<close> with the
  unit 1; \<open>pixels_per_metre\<close> is that value for a non-negative integer in exact arithmetic
  (\<open>d / 0.0254 + 0.5 = (10000 d + 127) / 254\<close>), which for 72 is also what the double
  arithmetic gives (2835.1456 before truncation). The buffer's own \<open>dpi\<close> entry is not
  written; which of its other entries the encoder carries over is the parameter
  \<open>carried\<close>.
\<close>

definition pixels_per_metre :: "int \<Rightarrow> int" where
  "pixels_per_metre d = (10000 * d + 127) div 254"

definition pHYs :: "int \<times> int \<Rightarrow> pyval" where
  "pHYs d = PyTuple [PyInt (pixels_per_metre (fst d)), PyInt (pixels_per_metre (snd d)), PyInt 1]"

definition encode :: "'p env \<Rightarrow> 'p image \<Rightarrow> int \<times> int \<Rightarrow> 'p blob" where
  "encode E im d = Raster (im\<lparr>info := (carried E (info im))(''dpi'' := None, ''pHYs'' \<mapsto> pHYs d)\<rparr>)"

definition save :: "'p env \<Rightarrow> 'p image \<Rightarrow> path \<Rightarrow> int \<times> int \<Rightarrow> 'p world \<Rightarrow> (unit, 'p) res" where
  "save E im p d w =
     (let f = encode E im d in
      case disk_write E p f of
        Written \<Rightarrow> Ok () (w\<lparr>files := (files w)(p \<mapsto> f), log := log w @ [Write p]\<rparr>)
      | Denied \<Rightarrow> Raise OSError w
      | Torn left \<Rightarrow> Raise OSError (w\<lparr>files := (files w)(p := left)\<rparr>))"

subsection \<open>The script\<close>

definition src :: path where
  "src = ''apps/desktop/build/dmg-background.png''"

definition before_line :: "'p env \<Rightarrow> 'p image \<Rightarrow> string" where
  "before_line E img =
     ''Before: '' @ str_size (size_img img) @ '', DPI: '' @ str_opt (float_repr E) (info img ''dpi'')"

definition after_line :: string where
  "after_line = ''After:  (590, 380), DPI: (72, 72)''"

definition main :: "'p env \<Rightarrow> 'p world \<Rightarrow> (unit, 'p) res" where
  "main E w0 =
     (case Image_open E src w0 of
        Raise e w \<Rightarrow> Raise e w
      | Ok img w1 \<Rightarrow>
          let w2 = print (before_line E img) w1 in
          (case resize E img (590, 380) LANCZOS of
             Inl e \<Rightarrow> Raise e w2
           | Inr img' \<Rightarrow>
               (case save E img' src (72, 72) w2 of
                  Raise e w \<Rightarrow> Raise e w
                | Ok u w3 \<Rightarrow> Ok () (print after_line w3))))"

text \<open>One run of the process: standard output starts empty.\<close>

definition run :: "'p env \<Rightarrow> (path \<rightharpoonup> 'p blob) \<Rightarrow> (unit, 'p) res" where
  "run E fs = main E \<lparr>files = fs, log = []\<rparr>"

fun world_of :: "('a, 'p) res \<Rightarrow> 'p world" where
  "world_of (Ok _ w) = w"
| "world_of (Raise _ w) = w"

fun raised :: "('a, 'p) res \<Rightarrow> error option" where
  "raised (Ok _ _) = None"
| "raised (Raise e _) = Some e"

text \<open>The interpreter exits with 0 at the end of the script and with 1 on an uncaught exception.\<close>

definition exit_code :: "('a, 'p) res \<Rightarrow> nat" where
  "exit_code r = (case raised r of None \<Rightarrow> 0 | Some _ \<Rightarrow> 1)"

definition disk :: "('a, 'p) res \<Rightarrow> (path \<rightharpoonup> 'p blob)" where
  "disk r = files (world_of r)"

definition trace :: "('a, 'p) res \<Rightarrow> event list" where
  "trace r = log (world_of r)"

fun stdout :: "event list \<Rightarrow> string list" where
  "stdout [] = []"
| "stdout (Stdout s # es) = s # stdout es"
| "stdout (Open p # es) = stdout es"
| "stdout (Write p # es) = stdout es"

fun opened :: "event list \<Rightarrow> path list" where
  "opened [] = []"
| "opened (Open p # es) = p # opened es"
| "opened (Stdout s # es) = opened es"
| "opened (Write p # es) = opened es"

fun written :: "event list \<Rightarrow> path list" where
  "written [] = []"
| "written (Write p # es) = p # written es"
| "written (Open p # es) = written es"
| "written (Stdout s # es) = written es"

text \<open>
  What the image file at a path holds: its pixel size; its density in pixels per metre
  (the chunk \<open>pHYs\<close> with the unit 1); and that density in dots per inch, one inch
  being 0.0254 metre exactly. A decoder reports the double nearest to the latter.
\<close>

definition size_on_disk :: "(path \<rightharpoonup> 'p blob) \<Rightarrow> path \<Rightarrow> (nat \<times> nat) option" where
  "size_on_disk fs p = (case fs p of Some (Raster f) \<Rightarrow> Some (size_img f) | _ \<Rightarrow> None)"

definition density_on_disk :: "(path \<rightharpoonup> 'p blob) \<Rightarrow> path \<Rightarrow> (int \<times> int) option" where
  "density_on_disk fs p =
     (case fs p of
        Some (Raster f) \<Rightarrow>
          (case info f ''pHYs'' of
             Some (PyTuple [PyInt x, PyInt y, PyInt u]) \<Rightarrow> if u = 1 then Some (x, y) else None
           | _ \<Rightarrow> None)
      | _ \<Rightarrow> None)"


text \<open>The buffer that statement 1 makes of the image file \<open>f\<close>.\<close>

abbreviation opened_as :: "'p env \<Rightarrow> 'p image \<Rightarrow> 'p image" where
  "opened_as E f \<equiv> f\<lparr>info := reported E (info f)\<rparr>"

subsection \<open>A concrete environment and concrete files\<close>

text \<open>
  For evaluation: the pixel data of a buffer is the list of the kernel calls it has been
  through, latest first, so that a file shows which filter, source box and target size
  made it. The encoder carries all metadata over. The decoder reports the density
  2835 pixels per metre as the pair of doubles \<open>2835 * 0.0254\<close> (the bit pattern
  \<open>0x4052009374BC6A7F\<close>, whose text is \<open>72.009\<close>) and every other entry as stored. The
  other floats with a text are 144.0 (the bit pattern \<open>0x4062000000000000\<close>) and 0.0.
  The disk answers every write with \<open>wo\<close>. The directory holds the background image
  and one other file.
\<close>

type_synonym call = "resampling \<times> (nat \<times> nat \<times> nat \<times> nat) \<times> (nat \<times> nat)"

definition lab_env :: "call list write_outcome \<Rightarrow> call list env" where
  "lab_env wo = \<lparr>resample = (\<lambda>flt box sz im. Some ((flt, box, sz) # pixels im)),
     carried = (\<lambda>m. m),
     reported = (\<lambda>m. if m ''pHYs'' = Some (PyTuple [PyInt 2835, PyInt 2835, PyInt 1])
        then (m(''pHYs'' := None))
               (''dpi'' \<mapsto> PyTuple [PyFloat 0x4052009374BC6A7F, PyFloat 0x4052009374BC6A7F])
        else m),
     float_repr = (\<lambda>x. if x = 0x4062000000000000 then ''144.0''
        else if x = 0x4052009374BC6A7F then ''72.009'' else ''0.0''),
     disk_write = (\<lambda>p f. wo)\<rparr>"

definition icon :: path where
  "icon = ''apps/desktop/build/icon.png''"

definition lab_fs :: "call list image \<Rightarrow> (path \<rightharpoonup> call list blob)" where
  "lab_fs im = [src \<mapsto> Raster im, icon \<mapsto> Opaque [1, 2, 3]]"

definition tiny :: "call list image" where
  "tiny = \<lparr>mode = ''RGB'', size_img = (1, 1), pixels = [], info = Map.empty\<rparr>"

definition wide :: "call list image" where
  "wide = \<lparr>mode = ''RGBA'', size_img = (1180, 380), pixels = [],
     info = [''dpi'' \<mapsto> PyTuple [PyFloat 0x4062000000000000, PyFloat 0x4062000000000000]]\<rparr>"

text \<open>A palette image, and an image as a run of the script leaves it.\<close>

definition paletted :: "call list image" where
  "paletted = \<lparr>mode = ''P'', size_img = (64, 64), pixels = [], info = Map.empty\<rparr>"

definition done_already :: "call list image" where
  "done_already =
     \<lparr>mode = ''RGB'', size_img = (590, 380), pixels = [],
      info = [''pHYs'' \<mapsto> PyTuple [PyInt 2835, PyInt 2835, PyInt 1]]\<rparr>"

text \<open>A directory where the file at the fixed path is three bytes of text, not an image.\<close>

definition garbage :: "path \<rightharpoonup> call list blob" where
  "garbage = [src \<mapsto> Opaque [0x61, 0x62, 0x63]]"

section \<open>The text of the two lines\<close>

lemma str_int_nat: "str_int (int n) = str_nat n"
  by (simp add: str_int_def)

lemma str_size_eq: "str_size (w, h) = ''('' @ str_nat w @ '', '' @ str_nat h @ '')''"
  by (simp add: str_size_def str_int_nat)

lemma str_nat_590: "str_nat 590 = ''590''"
  by code_simp

lemma str_nat_380: "str_nat 380 = ''380''"
  by code_simp

lemma str_nat_1180: "str_nat 1180 = ''1180''"
  by code_simp

lemma str_nat_1: "str_nat (Suc 0) = ''1''"
  by code_simp

lemma before_line_eq:
  "before_line E im =
     ''Before: ('' @ str_nat (fst (size_img im)) @ '', '' @ str_nat (snd (size_img im)) @
     ''), DPI: '' @ (case info im ''dpi'' of None \<Rightarrow> ''None'' | Some v \<Rightarrow> repr (float_repr E) v)"
  by (cases "size_img im") (simp add: before_line_def str_size_eq str_opt_def)

lemma before_line_590:
  "size_img im = (590, 380) \<Longrightarrow>
   before_line E im = ''Before: (590, 380), DPI: '' @ str_opt (float_repr E) (info im ''dpi'')"
  by (simp add: before_line_def str_size_eq str_nat_590 str_nat_380)

lemma before_line_pixels: "before_line E (im\<lparr>pixels := px\<rparr>) = before_line E im"
  by (simp add: before_line_def)

lemma before_not_after: "before_line E im \<noteq> after_line"
  by (simp add: before_line_def after_line_def)

text \<open>
  The decimal text of a number determines the number, so the first line determines the
  size it reports.
\<close>

lemma digit_inj: "a < 10 \<Longrightarrow> b < 10 \<Longrightarrow> digit a = digit b \<Longrightarrow> a = b"
  by (simp add: digit_def nth_eq_iff_index_eq)

lemma digit_in_digits: "d < 10 \<Longrightarrow> digit d \<in> set ''0123456789''"
  unfolding digit_def by (rule nth_mem) simp

lemma str_nat_digits: "set (str_nat n) \<subseteq> set ''0123456789''"
proof (induction n rule: str_nat.induct)
  case (1 n)
  show ?case
  proof (cases "n < 10")
    case True
    with digit_in_digits [of n] show ?thesis
      by (simp add: str_nat.simps [of n])
  next
    case False
    have "n mod 10 < 10" by simp
    from digit_in_digits [OF this] False "1.IH" show ?thesis
      by (simp add: str_nat.simps [of n])
  qed
qed

lemma str_nat_not_empty: "str_nat n \<noteq> []"
  by (simp add: str_nat.simps [of n])

lemma str_nat_inj: "str_nat m = str_nat n \<Longrightarrow> m = n"
proof (induction m arbitrary: n rule: str_nat.induct)
  case (1 m)
  show ?case
  proof (cases "m < 10")
    case m: True
    show ?thesis
    proof (cases "n < 10")
      case True
      with m "1.prems" show ?thesis
        by (simp add: str_nat.simps [of m] str_nat.simps [of n] digit_inj)
    next
      case False
      with m "1.prems" str_nat_not_empty [of "n div 10"] show ?thesis
        by (simp add: str_nat.simps [of m] str_nat.simps [of n])
    qed
  next
    case m: False
    show ?thesis
    proof (cases "n < 10")
      case True
      with m "1.prems" str_nat_not_empty [of "m div 10"] show ?thesis
        by (simp add: str_nat.simps [of m] str_nat.simps [of n])
    next
      case False
      with m "1.prems" have hi: "str_nat (m div 10) = str_nat (n div 10)"
        and lo: "digit (m mod 10) = digit (n mod 10)"
        by (simp_all add: str_nat.simps [of m] str_nat.simps [of n])
      from "1.IH" [OF m hi] have "m div 10 = n div 10" .
      moreover from lo have "m mod 10 = n mod 10"
        by (intro digit_inj) simp_all
      ultimately show ?thesis
        by (metis div_mult_mod_eq)
    qed
  qed
qed

text \<open>Two texts that agree up to and after the first character outside a class agree before it.\<close>

lemma cut_at_first_outsider:
  assumes "set xs \<subseteq> D" and "set ys \<subseteq> D" and "c \<notin> D"
    and "xs @ c # r = ys @ c # r'"
  shows "xs = ys \<and> r = r'"
  using assms
proof (induction xs arbitrary: ys)
  case Nil
  then show ?case by (cases ys) auto
next
  case (Cons x xs)
  then show ?case by (cases ys) auto
qed

lemma before_line_tells_size:
  assumes "before_line E im = before_line E' im'"
  shows "size_img im = size_img im'"
proof -
  from assms have
    "str_nat (fst (size_img im)) @ CHR '','' #
       (CHR '' '' # str_nat (snd (size_img im)) @ ''), DPI: '' @ str_opt (float_repr E) (info im ''dpi'')) =
     str_nat (fst (size_img im')) @ CHR '','' #
       (CHR '' '' # str_nat (snd (size_img im')) @ ''), DPI: '' @ str_opt (float_repr E') (info im' ''dpi''))"
    by (cases "size_img im"; cases "size_img im'") (simp add: before_line_def str_size_eq)
  from cut_at_first_outsider [OF str_nat_digits str_nat_digits _ this]
  have w: "str_nat (fst (size_img im)) = str_nat (fst (size_img im'))"
    and "str_nat (snd (size_img im)) @ CHR '')'' # ('', DPI: '' @ str_opt (float_repr E) (info im ''dpi'')) =
         str_nat (snd (size_img im')) @ CHR '')'' # ('', DPI: '' @ str_opt (float_repr E') (info im' ''dpi''))"
    by simp_all
  from cut_at_first_outsider [OF str_nat_digits str_nat_digits _ this(2)]
  have h: "str_nat (snd (size_img im)) = str_nat (snd (size_img im'))"
    by simp
  from w h show ?thesis
    by (auto dest: str_nat_inj simp add: prod_eq_iff)
qed

section \<open>What one run does\<close>

text \<open>What \<open>resize\<close> returns keeps the mode and the metadata and has the requested size.\<close>

lemma resize_keeps:
  assumes "resize E im sz flt = Inr im'"
  shows "size_img im' = sz \<and> mode im' = mode im \<and> info im' = info im"
  using assms by (auto simp add: resize_def Let_def split: if_splits option.splits)

lemma resize_same_size: "size_img im = sz \<Longrightarrow> resize E im sz flt = Inr im"
  by (simp add: resize_def)

lemma resize_other_size:
  "size_img im \<noteq> sz \<Longrightarrow>
   resize E im sz flt =
     (case resample E (if mode im \<in> {''1'', ''P''} then NEAREST else flt)
             (0, 0, fst (size_img im), snd (size_img im)) sz im of
        None \<Rightarrow> Inl MemoryError
      | Some px \<Rightarrow> Inr (im\<lparr>size_img := sz, pixels := px\<rparr>))"
  by (simp add: resize_def Let_def)

text \<open>The density the encoder writes for 72 dots per inch, and that density in dots per inch.\<close>

lemma pixels_per_metre_72: "pixels_per_metre 72 = 2835"
  by (simp add: pixels_per_metre_def)

lemma pHYs_72: "pHYs (72, 72) = PyTuple [PyInt 2835, PyInt 2835, PyInt 1]"
  by (simp add: pHYs_def pixels_per_metre_72)

lemma size_of_encoded: "size_on_disk (fs(p \<mapsto> encode E im d)) p = Some (size_img im)"
  by (simp add: size_on_disk_def encode_def)



text \<open>No whole number of pixels per metre is 72 dots per inch.\<close>

lemma no_density_is_72_dpi: "(of_int x :: rat) * 254 / 10000 \<noteq> 72"
proof
  assume "(of_int x :: rat) * 254 / 10000 = 72"
  then have "(of_int (x * 254) :: rat) = of_int 720000"
    by simp
  then have "x * 254 = 720000"
    by (simp only: of_int_eq_iff)
  then show False
    by presburger
qed

text \<open>The three ways statement 1 ends, and the run that follows each.\<close>

lemma run_missing:
  "fs src = None \<Longrightarrow> run E fs = Raise FileNotFoundError \<lparr>files = fs, log = [Open src]\<rparr>"
  by (simp add: run_def main_def Image_open_def)

lemma run_opaque:
  "fs src = Some (Opaque b) \<Longrightarrow>
   run E fs = Raise UnidentifiedImageError \<lparr>files = fs, log = [Open src]\<rparr>"
  by (simp add: run_def main_def Image_open_def)

lemma run_raster:
  "fs src = Some (Raster f) \<Longrightarrow>
   run E fs =
     (case resize E (opened_as E f) (590, 380) LANCZOS of
        Inl e \<Rightarrow> Raise e \<lparr>files = fs, log = [Open src, Stdout (before_line E (opened_as E f))]\<rparr>
      | Inr im' \<Rightarrow>
          (case disk_write E src (encode E im' (72, 72)) of
             Written \<Rightarrow> Ok () \<lparr>files = fs(src \<mapsto> encode E im' (72, 72)),
                 log = [Open src, Stdout (before_line E (opened_as E f)), Write src, Stdout after_line]\<rparr>
           | Denied \<Rightarrow> Raise OSError
                 \<lparr>files = fs, log = [Open src, Stdout (before_line E (opened_as E f))]\<rparr>
           | Torn left \<Rightarrow> Raise OSError \<lparr>files = fs(src := left),
                 log = [Open src, Stdout (before_line E (opened_as E f))]\<rparr>))"
  by (simp add: run_def main_def Image_open_def print_def save_def Let_def
      split: sum.split write_outcome.split)

text \<open>A run that ends without an exception went through all five statements.\<close>

lemma run_ok_cases:
  assumes "raised (run E fs) = None"
  obtains f im' where
    "fs src = Some (Raster f)"
    "resize E (opened_as E f) (590, 380) LANCZOS = Inr im'"
    "disk_write E src (encode E im' (72, 72)) = Written"
    "run E fs = Ok () \<lparr>files = fs(src \<mapsto> encode E im' (72, 72)),
       log = [Open src, Stdout (before_line E (opened_as E f)), Write src, Stdout after_line]\<rparr>"
proof (cases "fs src")
  case None
  with assms show ?thesis by (simp add: run_missing)
next
  case (Some b)
  show ?thesis
  proof (cases b)
    case (Opaque bytes)
    with Some assms show ?thesis by (simp add: run_opaque)
  next
    case (Raster f)
    with Some have src: "fs src = Some (Raster f)" by simp
    show ?thesis
    proof (cases "resize E (opened_as E f) (590, 380) LANCZOS")
      case (Inl e)
      with src assms show ?thesis by (simp add: run_raster)
    next
      case (Inr im')
      show ?thesis
      proof (cases "disk_write E src (encode E im' (72, 72))")
        case Written
        with src Inr that show ?thesis by (simp add: run_raster)
      next
        case Denied
        with src Inr assms show ?thesis by (simp add: run_raster)
      next
        case (Torn left)
        with src Inr assms show ?thesis by (simp add: run_raster)
      qed
    qed
  qed
qed

text \<open>
  A run succeeds exactly when the input decodes, \<open>resize\<close> returns and the disk takes
  the write.
\<close>

lemma run_ok_iff:
  "raised (run E fs) = None \<longleftrightarrow>
   (\<exists>f im'. fs src = Some (Raster f) \<and>
      resize E (opened_as E f) (590, 380) LANCZOS = Inr im' \<and>
      disk_write E src (encode E im' (72, 72)) = Written)"
proof
  assume "raised (run E fs) = None"
  then show "\<exists>f im'. fs src = Some (Raster f) \<and>
      resize E (opened_as E f) (590, 380) LANCZOS = Inr im' \<and>
      disk_write E src (encode E im' (72, 72)) = Written"
    by (elim run_ok_cases) blast
next
  assume "\<exists>f im'. fs src = Some (Raster f) \<and>
      resize E (opened_as E f) (590, 380) LANCZOS = Inr im' \<and>
      disk_write E src (encode E im' (72, 72)) = Written"
  then show "raised (run E fs) = None"
    by (auto simp add: run_raster)
qed

lemma exit_code_zero_iff: "exit_code r = 0 \<longleftrightarrow> raised r = None"
  by (simp add: exit_code_def split: option.split)

text \<open>
  When the file decodes but the library cannot load or resample its pixel data, the
  \<open>Before\<close> line is printed and no file is touched.
\<close>

lemma run_resample_fails:
  assumes "fs src = Some (Raster f)"
    and "resize E (opened_as E f) (590, 380) LANCZOS = Inl e"
  shows "raised (run E fs) = Some e \<and> e = MemoryError \<and> disk (run E fs) = fs \<and>
         stdout (trace (run E fs)) = [before_line E (opened_as E f)]"
  using assms
  by (auto simp add: run_raster disk_def trace_def resize_def Let_def
      split: if_splits option.splits)

text \<open>Whatever way a run ends, no path but the fixed one holds anything new.\<close>

lemma run_frame: "p \<noteq> src \<Longrightarrow> disk (run E fs) p = fs p"
proof (cases "fs src")
  case None
  then show ?thesis by (simp add: run_missing disk_def)
next
  case (Some b)
  assume "p \<noteq> src"
  with Some show ?thesis
    by (cases b)
      (simp_all add: run_opaque run_raster disk_def split: sum.split write_outcome.split)
qed

text \<open>The runs on the concrete files.\<close>

lemma lab_src: "lab_fs im src = Some (Raster im)"
  by (simp add: lab_fs_def src_def icon_def)

lemma lab_fs_upd: "(lab_fs im)(src \<mapsto> Raster im') = lab_fs im'"
  by (rule ext) (simp add: lab_fs_def src_def icon_def)

lemma lab_icon: "lab_fs im icon = Some (Opaque [1, 2, 3])"
  by (simp add: lab_fs_def)

lemma icon_not_src: "icon \<noteq> src"
  by (simp add: icon_def src_def)

lemma lab_kernel:
  "resample (lab_env wo) flt box sz im = Some ((flt, box, sz) # pixels im)"
  by (simp add: lab_env_def)

lemma lab_disk_write: "disk_write (lab_env wo) p f = wo"
  by (simp add: lab_env_def)

lemma lab_carried: "carried (lab_env wo) m = m"
  by (simp add: lab_env_def)

lemma lab_reported: "m ''pHYs'' = None \<Longrightarrow> reported (lab_env wo) m = m"
  by (simp add: lab_env_def)

lemma lab_reported_2835:
  "m ''pHYs'' = Some (PyTuple [PyInt 2835, PyInt 2835, PyInt 1]) \<Longrightarrow>
   reported (lab_env wo) m =
     (m(''pHYs'' := None))
       (''dpi'' \<mapsto> PyTuple [PyFloat 0x4052009374BC6A7F, PyFloat 0x4052009374BC6A7F])"
  by (simp add: lab_env_def)

lemma lab_float_repr:
  "float_repr (lab_env wo) x =
     (if x = 0x4062000000000000 then ''144.0''
      else if x = 0x4052009374BC6A7F then ''72.009'' else ''0.0'')"
  by (simp add: lab_env_def)

lemma lab_opened: "info f ''pHYs'' = None \<Longrightarrow> opened_as (lab_env wo) f = f"
  by (simp add: lab_reported)

text \<open>An input of another size and of a mode that keeps the filter, with no density chunk.\<close>

lemma lab_run:
  assumes "size_img im \<noteq> (590, 380)" and "mode im \<notin> {''1'', ''P''}" and "info im ''pHYs'' = None"
  shows "run (lab_env wo) (lab_fs im) =
     (case wo of
        Written \<Rightarrow> Ok () \<lparr>files = lab_fs (im\<lparr>size_img := (590, 380),
               pixels := (LANCZOS, (0, 0, fst (size_img im), snd (size_img im)), (590, 380)) # pixels im,
               info := (info im)(''dpi'' := None,
                 ''pHYs'' \<mapsto> PyTuple [PyInt 2835, PyInt 2835, PyInt 1])\<rparr>),
           log = [Open src, Stdout (before_line (lab_env wo) im), Write src, Stdout after_line]\<rparr>
      | Denied \<Rightarrow> Raise OSError
           \<lparr>files = lab_fs im, log = [Open src, Stdout (before_line (lab_env wo) im)]\<rparr>
      | Torn left \<Rightarrow> Raise OSError \<lparr>files = (lab_fs im)(src := left),
           log = [Open src, Stdout (before_line (lab_env wo) im)]\<rparr>)"
proof -
  have r: "resize (lab_env wo') im (590, 380) LANCZOS =
      Inr (im\<lparr>size_img := (590, 380),
        pixels := (LANCZOS, (0, 0, fst (size_img im), snd (size_img im)), (590, 380)) # pixels im\<rparr>)"
    for wo'
    using assms(1,2) by (simp add: resize_other_size lab_kernel)
  show ?thesis
    using lab_src [of im] assms(3)
    by (simp add: run_raster [of "lab_fs im" im] lab_reported r lab_disk_write
        encode_def lab_carried pHYs_72 lab_fs_upd split: write_outcome.split)
qed

text \<open>An input that already has the target size.\<close>

lemma lab_run_at_target:
  assumes "size_img im = (590, 380)"
  shows "run (lab_env Written) (lab_fs im) =
     Ok () \<lparr>files = lab_fs (im\<lparr>info := (reported (lab_env Written) (info im))(''dpi'' := None,
                 ''pHYs'' \<mapsto> PyTuple [PyInt 2835, PyInt 2835, PyInt 1])\<rparr>),
       log = [Open src, Stdout (before_line (lab_env Written) (opened_as (lab_env Written) im)),
              Write src, Stdout after_line]\<rparr>"
  using lab_src [of im] assms
  by (simp add: run_raster [of "lab_fs im" im] resize_same_size lab_disk_write encode_def
      lab_carried pHYs_72 lab_fs_upd)

lemma before_tiny: "before_line (lab_env wo) tiny = ''Before: (1, 1), DPI: None''"
  by (simp add: before_line_eq tiny_def str_nat_1)

lemma before_wide: "before_line (lab_env wo) wide = ''Before: (1180, 380), DPI: (144.0, 144.0)''"
  by (simp add: before_line_eq wide_def str_nat_1180 str_nat_380 lab_env_def)

lemma tiny_plain: "size_img tiny \<noteq> (590, 380)" "mode tiny \<notin> {''1'', ''P''}" "info tiny ''pHYs'' = None"
  by (simp_all add: tiny_def)

lemma wide_plain: "size_img wide \<noteq> (590, 380)" "mode wide \<notin> {''1'', ''P''}" "info wide ''pHYs'' = None"
  by (simp_all add: wide_def)

lemmas lab_tiny_run = lab_run [OF tiny_plain]

text \<open>The palette image goes through \<open>NEAREST\<close>; the image at the target size is copied.\<close>

lemma lab_paletted_run:
  "run (lab_env Written) (lab_fs paletted) =
     Ok () \<lparr>files = (lab_fs paletted)(src \<mapsto> encode (lab_env Written)
         (paletted\<lparr>size_img := (590, 380), pixels := [(NEAREST, (0, 0, 64, 64), (590, 380))]\<rparr>)
         (72, 72)),
       log = [Open src, Stdout (before_line (lab_env Written) paletted), Write src,
              Stdout after_line]\<rparr>"
proof -
  have o: "opened_as (lab_env Written) paletted = paletted"
    by (simp add: lab_reported paletted_def)
  have z: "resize (lab_env Written) paletted (590, 380) LANCZOS =
      Inr (paletted\<lparr>size_img := (590, 380), pixels := [(NEAREST, (0, 0, 64, 64), (590, 380))]\<rparr>)"
    by (simp add: resize_def lab_kernel paletted_def)
  show ?thesis
    using lab_src [of paletted]
    by (simp add: run_raster [of "lab_fs paletted" paletted] o z lab_disk_write)
qed

lemma lab_done_already_run:
  "run (lab_env Written) (lab_fs done_already) =
     Ok () \<lparr>files = lab_fs done_already,
       log = [Open src,
              Stdout (before_line (lab_env Written) (opened_as (lab_env Written) done_already)),
              Write src, Stdout after_line]\<rparr>"
  by (simp add: lab_run_at_target done_already_def lab_reported_2835)

lemmas lab_wide_run = lab_run [OF wide_plain]

section \<open>The claims\<close>




text \<open>
  C2. The target size is a fixed point: after one successful run the file is 590 by 380,
  and a second successful run, started on the file the first one wrote (with any
  environment of its own), leaves a file of 590 by 380 again. The second run reads the
  resized file: its first line reports the size \<open>(590, 380)\<close>.
\<close>

theorem C2_second_run_is_fixed_point:
  assumes "raised (run E1 fs) = None"
    and "raised (run E2 (disk (run E1 fs))) = None"
  shows "size_on_disk (disk (run E1 fs)) src = Some (590, 380) \<and>
         size_on_disk (disk (run E2 (disk (run E1 fs)))) src = Some (590, 380) \<and>
         (\<exists>d. take 1 (stdout (trace (run E2 (disk (run E1 fs))))) =
            [''Before: (590, 380), DPI: '' @ d])"
proof -
  from assms(1) obtain f im1 where
    z1: "resize E1 (opened_as E1 f) (590, 380) LANCZOS = Inr im1" and
    r1: "run E1 fs = Ok () \<lparr>files = fs(src \<mapsto> encode E1 im1 (72, 72)),
       log = [Open src, Stdout (before_line E1 (opened_as E1 f)), Write src, Stdout after_line]\<rparr>"
    by (rule run_ok_cases)
  from z1 have s1: "size_img im1 = (590, 380)"
    by (simp add: resize_keeps)
  from r1 have d1: "disk (run E1 fs) src = Some (encode E1 im1 (72, 72))"
    by (simp add: disk_def)
  from assms(2) obtain f2 im2 where
    src2: "disk (run E1 fs) src = Some (Raster f2)" and
    z2: "resize E2 (opened_as E2 f2) (590, 380) LANCZOS = Inr im2" and
    r2: "run E2 (disk (run E1 fs)) = Ok () \<lparr>files = (disk (run E1 fs))(src \<mapsto> encode E2 im2 (72, 72)),
       log = [Open src, Stdout (before_line E2 (opened_as E2 f2)), Write src, Stdout after_line]\<rparr>"
    by (rule run_ok_cases)
  from z2 have s2: "size_img im2 = (590, 380)"
    by (simp add: resize_keeps)
  from d1 src2 s1 have "size_img (opened_as E2 f2) = (590, 380)"
    by (auto simp add: encode_def)
  then have "before_line E2 (opened_as E2 f2) =
      ''Before: (590, 380), DPI: '' @ str_opt (float_repr E2) (info (opened_as E2 f2) ''dpi'')"
    by (rule before_line_590)
  with r1 r2 s1 s2 show ?thesis
    by (simp add: disk_def trace_def size_of_encoded)
qed

theorem C2_witness:
  "raised (run (lab_env Written) (lab_fs wide)) = None \<and>
   raised (run (lab_env Written) (disk (run (lab_env Written) (lab_fs wide)))) = None \<and>
   size_on_disk (lab_fs wide) src = Some (1180, 380) \<and>
   size_on_disk (disk (run (lab_env Written) (lab_fs wide))) src = Some (590, 380) \<and>
   size_on_disk (disk (run (lab_env Written) (disk (run (lab_env Written) (lab_fs wide))))) src
     = Some (590, 380) \<and>
   (\<exists>d. take 1 (stdout (trace (run (lab_env Written) (disk (run (lab_env Written) (lab_fs wide))))))
     = [''Before: (590, 380), DPI: '' @ d])"
proof -
  have ok1: "raised (run (lab_env Written) (lab_fs wide)) = None"
    by (simp add: lab_wide_run)
  have ok2: "raised (run (lab_env Written) (disk (run (lab_env Written) (lab_fs wide)))) = None"
    by (simp add: lab_wide_run disk_def lab_run_at_target)
  have "size_on_disk (lab_fs wide) src = Some (1180, 380)"
    by (simp add: size_on_disk_def lab_src wide_def)
  with ok1 ok2 C2_second_run_is_fixed_point [OF ok1 ok2] show ?thesis
    by simp
qed

text \<open>
  C3. The new buffer is 590 by 380 whatever the size and the aspect ratio of the input,
  and it is made of the whole input frame: the kernel is given the source box
  \<open>(0, 0, width, height)\<close> and the target size \<open>(590, 380)\<close>, so no part of the input
  is cut off and no part of the output is left to padding. It is not always made by the
  Lanczos filter: the script asks for \<open>LANCZOS\<close>, and the library runs that filter
  unless the image is of mode \<open>1\<close> or \<open>P\<close>, where it runs \<open>NEAREST\<close>, or the image
  is already 590 by 380, where it runs no filter and returns a copy. The arithmetic of
  the kernels belongs to the library and is the parameter \<open>resample\<close>. The witness runs
  a square and a wide input; the counterexample is a palette image.
\<close>

theorem C3_whole_frame_filter_by_mode:
  assumes "fs src = Some (Raster f)"
    and "raised (run E fs) = None"
  shows "\<exists>out. disk (run E fs) src = Some (Raster out) \<and> size_img out = (590, 380) \<and>
           (if size_img f = (590, 380) then pixels out = pixels f
            else resample E (if mode f \<in> {''1'', ''P''} then NEAREST else LANCZOS)
                   (0, 0, fst (size_img f), snd (size_img f)) (590, 380) (opened_as E f) =
                 Some (pixels out))"
proof -
  from assms(2) obtain f' im' where
    "fs src = Some (Raster f')"
    and z: "resize E (opened_as E f') (590, 380) LANCZOS = Inr im'"
    and r: "run E fs = Ok () \<lparr>files = fs(src \<mapsto> encode E im' (72, 72)),
       log = [Open src, Stdout (before_line E (opened_as E f')), Write src, Stdout after_line]\<rparr>"
    by (rule run_ok_cases)
  with assms(1) have same: "f' = f" by simp
  from r have d: "disk (run E fs) src =
      Some (Raster (im'\<lparr>info := (carried E (info im'))(''dpi'' := None, ''pHYs'' \<mapsto> pHYs (72, 72))\<rparr>))"
    by (simp add: disk_def encode_def)
  from z have s: "size_img im' = (590, 380)"
    by (simp add: resize_keeps)
  from z same have "if size_img f = (590, 380) then pixels im' = pixels f
      else resample E (if mode f \<in> {''1'', ''P''} then NEAREST else LANCZOS)
             (0, 0, fst (size_img f), snd (size_img f)) (590, 380) (opened_as E f) =
           Some (pixels im')"
    by (auto simp add: resize_def Let_def split: if_splits option.splits)
  with d s show ?thesis
    by (auto split: if_splits)
qed

theorem C3_witness:
  "lab_fs tiny src = Some (Raster tiny) \<and> size_img tiny = (1, 1) \<and>
   raised (run (lab_env Written) (lab_fs tiny)) = None \<and>
   (\<exists>out. disk (run (lab_env Written) (lab_fs tiny)) src = Some (Raster out) \<and>
      size_img out = (590, 380) \<and> pixels out = [(LANCZOS, (0, 0, 1, 1), (590, 380))]) \<and>
   lab_fs wide src = Some (Raster wide) \<and> size_img wide = (1180, 380) \<and>
   raised (run (lab_env Written) (lab_fs wide)) = None \<and>
   (\<exists>out. disk (run (lab_env Written) (lab_fs wide)) src = Some (Raster out) \<and>
      size_img out = (590, 380) \<and> pixels out = [(LANCZOS, (0, 0, 1180, 380), (590, 380))])"
proof -
  have ok1: "raised (run (lab_env Written) (lab_fs tiny)) = None"
    and ok2: "raised (run (lab_env Written) (lab_fs wide)) = None"
    by (simp_all add: lab_tiny_run lab_wide_run)
  from C3_whole_frame_filter_by_mode [of "lab_fs tiny" tiny "lab_env Written", OF lab_src ok1]
  have "\<exists>out. disk (run (lab_env Written) (lab_fs tiny)) src = Some (Raster out) \<and>
      size_img out = (590, 380) \<and> pixels out = [(LANCZOS, (0, 0, 1, 1), (590, 380))]"
    by (auto simp add: lab_kernel tiny_def)
  moreover
  from C3_whole_frame_filter_by_mode [of "lab_fs wide" wide "lab_env Written", OF lab_src ok2]
  have "\<exists>out. disk (run (lab_env Written) (lab_fs wide)) src = Some (Raster out) \<and>
      size_img out = (590, 380) \<and> pixels out = [(LANCZOS, (0, 0, 1180, 380), (590, 380))]"
    by (auto simp add: lab_kernel wide_def)
  ultimately show ?thesis using ok1 ok2
    by (simp add: lab_src) (simp add: tiny_def wide_def)
qed

text \<open>The two branches that do not run the requested filter, at the palette image and at
  the image that is already 590 by 380.\<close>

lemma C3_other_branches:
  "raised (run (lab_env Written) (lab_fs paletted)) = None \<and>
   (\<exists>out. disk (run (lab_env Written) (lab_fs paletted)) src = Some (Raster out) \<and>
      size_img out = (590, 380) \<and> pixels out = [(NEAREST, (0, 0, 64, 64), (590, 380))]) \<and>
   raised (run (lab_env Written) (lab_fs done_already)) = None \<and>
   (\<exists>out. disk (run (lab_env Written) (lab_fs done_already)) src = Some (Raster out) \<and>
      size_img out = (590, 380) \<and> pixels out = [])"
  using lab_paletted_run lab_done_already_run
  by (simp add: lab_src disk_def encode_def) (simp add: done_already_def)

theorem C3_counterexample:
  "lab_fs paletted src = Some (Raster paletted) \<and>
   raised (run (lab_env Written) (lab_fs paletted)) = None \<and>
   (\<exists>out. disk (run (lab_env Written) (lab_fs paletted)) src = Some (Raster out) \<and>
      size_img out = (590, 380) \<and> pixels out = [(NEAREST, (0, 0, 64, 64), (590, 380))]) \<and>
   \<not> (\<exists>out. disk (run (lab_env Written) (lab_fs paletted)) src = Some (Raster out) \<and>
      resample (lab_env Written) LANCZOS (0, 0, 64, 64) (590, 380)
        (opened_as (lab_env Written) paletted) = Some (pixels out))"
  using lab_paletted_run
  by (simp add: lab_src disk_def encode_def lab_kernel)

text \<open>
  C4. For every decodable input the first line on standard output is \<open>Before: (W, H), DPI: D\<close>
  where \<open>W\<close> and \<open>H\<close> are the width and height of the image file in decimal and \<open>D\<close> is
  the text of the \<open>dpi\<close> entry the decoder reports for it, or \<open>None\<close> when there is no
  such entry: the lookup is \<^verbatim>\<open>dict.get\<close>, which does not raise. The report is
  exact: an image whose \<open>Before\<close> line is this line has this size. The line is printed
  whatever happens in the later statements (the second half of the witness runs with a
  disk that refuses the write).
\<close>

theorem C4_first_line_reports_decoded_size_and_dpi:
  assumes "fs src = Some (Raster f)"
  shows "take 1 (stdout (trace (run E fs))) =
           [''Before: ('' @ str_nat (fst (size_img f)) @ '', '' @ str_nat (snd (size_img f)) @
            ''), DPI: '' @
            (case reported E (info f) ''dpi'' of
               None \<Rightarrow> ''None'' | Some v \<Rightarrow> repr (float_repr E) v)] \<and>
         (\<forall>E' im'. take 1 (stdout (trace (run E fs))) = [before_line E' im'] \<longrightarrow>
            size_img im' = size_img f)"
proof -
  from assms have first: "take 1 (stdout (trace (run E fs))) = [before_line E (opened_as E f)]"
    by (simp add: run_raster trace_def split: sum.split write_outcome.split)
  then have "\<forall>E' im'. take 1 (stdout (trace (run E fs))) = [before_line E' im'] \<longrightarrow>
      size_img im' = size_img f"
    by (auto dest: before_line_tells_size)
  moreover have "before_line E (opened_as E f) =
      ''Before: ('' @ str_nat (fst (size_img f)) @ '', '' @ str_nat (snd (size_img f)) @
      ''), DPI: '' @
      (case reported E (info f) ''dpi'' of None \<Rightarrow> ''None'' | Some v \<Rightarrow> repr (float_repr E) v)"
    by (simp add: before_line_eq)
  ultimately show ?thesis using first
    by simp
qed

theorem C4_witness:
  "lab_fs tiny src = Some (Raster tiny) \<and>
   take 1 (stdout (trace (run (lab_env Written) (lab_fs tiny)))) = [''Before: (1, 1), DPI: None''] \<and>
   lab_fs wide src = Some (Raster wide) \<and>
   take 1 (stdout (trace (run (lab_env Denied) (lab_fs wide)))) =
     [''Before: (1180, 380), DPI: (144.0, 144.0)''] \<and>
   take 1 (stdout (trace (run (lab_env Denied) (lab_fs wide)))) =
     [before_line (lab_env Written) (wide\<lparr>pixels := [(BOX, (0, 0, 2, 2), (1, 1))]\<rparr>)] \<and>
   size_img (wide\<lparr>pixels := [(BOX, (0, 0, 2, 2), (1, 1))]\<rparr>) = size_img wide"
proof -
  have 1: "lab_fs tiny src = Some (Raster tiny)" and 2: "lab_fs wide src = Some (Raster wide)"
    by (simp_all add: lab_src)
  have t: "take 1 (stdout (trace (run (lab_env Written) (lab_fs tiny)))) = [''Before: (1, 1), DPI: None'']"
    and w: "take 1 (stdout (trace (run (lab_env Denied) (lab_fs wide)))) =
      [''Before: (1180, 380), DPI: (144.0, 144.0)'']"
    using C4_first_line_reports_decoded_size_and_dpi
      [of "lab_fs tiny" tiny "lab_env Written", OF 1, THEN conjunct1]
      C4_first_line_reports_decoded_size_and_dpi
      [of "lab_fs wide" wide "lab_env Denied", OF 2, THEN conjunct1]
    by (simp_all add: lab_reported tiny_plain wide_plain)
      (simp_all add: tiny_def wide_def str_nat_1 str_nat_1180 str_nat_380 lab_float_repr)
  from w have same: "take 1 (stdout (trace (run (lab_env Denied) (lab_fs wide)))) =
      [before_line (lab_env Written) (wide\<lparr>pixels := [(BOX, (0, 0, 2, 2), (1, 1))]\<rparr>)]"
    by (simp add: before_line_pixels before_wide)
  with C4_first_line_reports_decoded_size_and_dpi
    [of "lab_fs wide" wide "lab_env Denied", OF 2, THEN conjunct2]
  have "size_img (wide\<lparr>pixels := [(BOX, (0, 0, 2, 2), (1, 1))]\<rparr>) = size_img wide"
    by blast
  with t w same 1 2 show ?thesis
    by simp
qed

text \<open>
  C5. When the file at the fixed path is missing or is not an image, statement 1 raises
  (\<open>FileNotFoundError\<close> or \<open>UnidentifiedImageError\<close>), nothing catches it, the process
  exits with status 1, the file system is exactly what it was, and the log of the run is
  the single attempt to open the file: nothing is printed, nothing is written, nothing is
  tried again.
\<close>

theorem C5_decode_failure_changes_nothing:
  assumes "\<forall>f. fs src \<noteq> Some (Raster f)"
  shows "raised (run E fs) =
           Some (if fs src = None then FileNotFoundError else UnidentifiedImageError) \<and>
         exit_code (run E fs) = 1 \<and>
         disk (run E fs) = fs \<and>
         trace (run E fs) = [Open src]"
proof (cases "fs src")
  case None
  then show ?thesis
    by (simp add: run_missing exit_code_def disk_def trace_def)
next
  case (Some b)
  with assms obtain bytes where "fs src = Some (Opaque bytes)"
    by (cases b) auto
  then show ?thesis
    by (simp add: run_opaque exit_code_def disk_def trace_def)
qed

theorem C5_witness:
  "(Map.empty :: path \<rightharpoonup> call list blob) src = None \<and>
   raised (run (lab_env Written) Map.empty) = Some FileNotFoundError \<and>
   exit_code (run (lab_env Written) Map.empty) = 1 \<and>
   disk (run (lab_env Written) Map.empty) = Map.empty \<and>
   trace (run (lab_env Written) Map.empty) = [Open src] \<and>
   garbage src = Some (Opaque [0x61, 0x62, 0x63]) \<and>
   raised (run (lab_env Written) garbage) = Some UnidentifiedImageError \<and>
   exit_code (run (lab_env Written) garbage) = 1 \<and>
   disk (run (lab_env Written) garbage) = garbage \<and>
   trace (run (lab_env Written) garbage) = [Open src]"
proof -
  have g: "garbage src = Some (Opaque [0x61, 0x62, 0x63])"
    by (simp add: garbage_def)
  have "\<forall>f. (Map.empty :: path \<rightharpoonup> call list blob) src \<noteq> Some (Raster f)"
    by simp
  from C5_decode_failure_changes_nothing [of Map.empty "lab_env Written", OF this]
  have 1: "raised (run (lab_env Written) Map.empty) = Some FileNotFoundError \<and>
   exit_code (run (lab_env Written) Map.empty) = 1 \<and>
   disk (run (lab_env Written) Map.empty) = Map.empty \<and>
   trace (run (lab_env Written) Map.empty) = [Open src]"
    by simp
  from g have "\<forall>f. garbage src \<noteq> Some (Raster f)"
    by simp
  from C5_decode_failure_changes_nothing [of garbage "lab_env Written", OF this] g
  have "raised (run (lab_env Written) garbage) = Some UnidentifiedImageError \<and>
   exit_code (run (lab_env Written) garbage) = 1 \<and>
   disk (run (lab_env Written) garbage) = garbage \<and>
   trace (run (lab_env Written) garbage) = [Open src]"
    by simp
  with 1 g show ?thesis by simp
qed

text \<open>
  C6. A run that ends without an exception has opened the fixed path once, written the
  fixed path once and printed two lines, and that is its whole log (four events). Every
  other path holds what it held before, and no path has appeared or gone. The model has
  no network and no process environment, as the script has no statement that touches one.
\<close>

theorem C6_only_the_target_and_two_lines:
  assumes "raised (run E fs) = None"
  shows "(\<forall>p. p \<noteq> src \<longrightarrow> disk (run E fs) p = fs p) \<and>
         dom (disk (run E fs)) = dom fs \<and>
         opened (trace (run E fs)) = [src] \<and>
         written (trace (run E fs)) = [src] \<and>
         length (stdout (trace (run E fs))) = 2 \<and>
         length (trace (run E fs)) = 4"
proof -
  from assms obtain f im' where
    "fs src = Some (Raster f)"
    and "run E fs = Ok () \<lparr>files = fs(src \<mapsto> encode E im' (72, 72)),
       log = [Open src, Stdout (before_line E (opened_as E f)), Write src, Stdout after_line]\<rparr>"
    by (rule run_ok_cases)
  then show ?thesis
    by (auto simp add: disk_def trace_def)
qed

theorem C6_witness:
  "raised (run (lab_env Written) (lab_fs tiny)) = None \<and>
   disk (run (lab_env Written) (lab_fs tiny)) icon = lab_fs tiny icon \<and>
   lab_fs tiny icon = Some (Opaque [1, 2, 3]) \<and>
   dom (disk (run (lab_env Written) (lab_fs tiny))) = {src, icon} \<and>
   opened (trace (run (lab_env Written) (lab_fs tiny))) = [src] \<and>
   written (trace (run (lab_env Written) (lab_fs tiny))) = [src] \<and>
   stdout (trace (run (lab_env Written) (lab_fs tiny))) =
     [''Before: (1, 1), DPI: None'', ''After:  (590, 380), DPI: (72, 72)'']"
proof -
  have ok: "raised (run (lab_env Written) (lab_fs tiny)) = None"
    by (simp add: lab_tiny_run)
  have d: "dom (lab_fs tiny) = {src, icon}"
    by (auto simp add: lab_fs_def)
  have out: "stdout (trace (run (lab_env Written) (lab_fs tiny))) =
     [''Before: (1, 1), DPI: None'', ''After:  (590, 380), DPI: (72, 72)'']"
    by (simp add: lab_tiny_run trace_def before_tiny after_line_def)
  from C6_only_the_target_and_two_lines [OF ok] ok d out icon_not_src show ?thesis
    by (simp add: lab_icon)
qed

text \<open>
  C7. The overwrite is unconditional and the resampling is not. For every decodable
  input, with no condition on its size or its metadata, the script calls \<open>resize\<close> and
  \<open>save\<close>, and the file at the fixed path is encoded and written again. The script
  itself tests nothing, but the library's \<open>resize\<close> tests the current size: an image
  that is already 590 by 380 is returned as a copy and no kernel runs; any other image
  goes through the kernel. The witness and the counterexample are an input that is
  already 590 by 380 with the density a run leaves: its file is written again with the
  pixel data it had.
\<close>

theorem C7_overwrite_always_resample_unless_at_target:
  assumes "fs src = Some (Raster f)"
    and "resize E (opened_as E f) (590, 380) LANCZOS = Inr im'"
    and "disk_write E src (encode E im' (72, 72)) = Written"
  shows "raised (run E fs) = None \<and>
         disk (run E fs) src = Some (encode E im' (72, 72)) \<and>
         written (trace (run E fs)) = [src] \<and>
         (if size_img f = (590, 380) then im' = opened_as E f
          else \<exists>px. resample E (if mode f \<in> {''1'', ''P''} then NEAREST else LANCZOS)
                       (0, 0, fst (size_img f), snd (size_img f)) (590, 380) (opened_as E f) =
                     Some px \<and>
                  im' = (opened_as E f)\<lparr>size_img := (590, 380), pixels := px\<rparr>)"
proof -
  from assms have "raised (run E fs) = None \<and>
      disk (run E fs) src = Some (encode E im' (72, 72)) \<and>
      written (trace (run E fs)) = [src]"
    by (simp add: run_raster disk_def trace_def)
  moreover from assms(2) have "if size_img f = (590, 380) then im' = opened_as E f
      else \<exists>px. resample E (if mode f \<in> {''1'', ''P''} then NEAREST else LANCZOS)
                   (0, 0, fst (size_img f), snd (size_img f)) (590, 380) (opened_as E f) =
                 Some px \<and>
              im' = (opened_as E f)\<lparr>size_img := (590, 380), pixels := px\<rparr>"
    by (auto simp add: resize_def Let_def split: if_splits option.splits)
  ultimately show ?thesis
    by simp
qed

theorem C7_witness:
  "lab_fs done_already src = Some (Raster done_already) \<and>
   size_on_disk (lab_fs done_already) src = Some (590, 380) \<and>
   density_on_disk (lab_fs done_already) src = Some (2835, 2835) \<and>
   resize (lab_env Written) (opened_as (lab_env Written) done_already) (590, 380) LANCZOS =
     Inr (opened_as (lab_env Written) done_already) \<and>
   raised (run (lab_env Written) (lab_fs done_already)) = None \<and>
   written (trace (run (lab_env Written) (lab_fs done_already))) = [src] \<and>
   disk (run (lab_env Written) (lab_fs done_already)) src = Some (Raster done_already)"
proof -
  have f: "lab_fs done_already src = Some (Raster done_already)"
    by (rule lab_src)
  have z: "resize (lab_env Written) (opened_as (lab_env Written) done_already) (590, 380) LANCZOS =
      Inr (opened_as (lab_env Written) done_already)"
    by (simp add: resize_same_size done_already_def)
  have w: "disk_write (lab_env Written) src
      (encode (lab_env Written) (opened_as (lab_env Written) done_already) (72, 72)) = Written"
    by (rule lab_disk_write)
  have e: "encode (lab_env Written) (opened_as (lab_env Written) done_already) (72, 72) =
      Raster done_already"
    by (simp add: encode_def lab_carried pHYs_72 lab_reported_2835 done_already_def)
  have s: "size_on_disk (lab_fs done_already) src = Some (590, 380)"
    "density_on_disk (lab_fs done_already) src = Some (2835, 2835)"
    by (simp_all add: size_on_disk_def density_on_disk_def lab_src) (simp_all add: done_already_def)
  from C7_overwrite_always_resample_unless_at_target
    [of "lab_fs done_already" done_already "lab_env Written", OF f z w] f s z
  show ?thesis
    by (simp add: e)
qed

theorem C7_counterexample:
  "lab_fs done_already src = Some (Raster done_already) \<and>
   size_on_disk (lab_fs done_already) src = Some (590, 380) \<and>
   raised (run (lab_env Written) (lab_fs done_already)) = None \<and>
   written (trace (run (lab_env Written) (lab_fs done_already))) = [src] \<and>
   (\<exists>out. disk (run (lab_env Written) (lab_fs done_already)) src = Some (Raster out) \<and>
      pixels out = pixels done_already) \<and>
   \<not> (\<exists>out. disk (run (lab_env Written) (lab_fs done_already)) src = Some (Raster out) \<and>
      resample (lab_env Written) LANCZOS (0, 0, 590, 380) (590, 380)
        (opened_as (lab_env Written) done_already) = Some (pixels out))"
proof -
  have "size_on_disk (lab_fs done_already) src = Some (590, 380)"
    by (simp add: size_on_disk_def lab_src) (simp add: done_already_def)
  with lab_done_already_run show ?thesis
    by (simp add: lab_src disk_def trace_def lab_kernel)
qed

text \<open>
  C8. The second line on standard output is the literal
  \<open>After:  (590, 380), DPI: (72, 72)\<close>, with two spaces after the colon, for every input
  and every environment, and it is the last event of the run. The fixed path is opened
  once in the whole run, by statement 1: nothing reads the written file back.
\<close>

theorem C8_second_line_is_a_literal:
  assumes "raised (run E fs) = None"
  shows "stdout (trace (run E fs)) ! 1 = ''After:  (590, 380), DPI: (72, 72)'' \<and>
         length (stdout (trace (run E fs))) = 2 \<and>
         last (trace (run E fs)) = Stdout ''After:  (590, 380), DPI: (72, 72)'' \<and>
         opened (trace (run E fs)) = [src]"
proof -
  from assms obtain f im' where
    "run E fs = Ok () \<lparr>files = fs(src \<mapsto> encode E im' (72, 72)),
       log = [Open src, Stdout (before_line E (opened_as E f)), Write src, Stdout after_line]\<rparr>"
    by (rule run_ok_cases)
  then show ?thesis
    by (simp add: trace_def after_line_def)
qed

theorem C8_witness:
  "raised (run (lab_env Written) (lab_fs tiny)) = None \<and>
   raised (run (lab_env Written) (lab_fs wide)) = None \<and>
   stdout (trace (run (lab_env Written) (lab_fs tiny))) ! 1 = ''After:  (590, 380), DPI: (72, 72)'' \<and>
   stdout (trace (run (lab_env Written) (lab_fs wide))) ! 1 = ''After:  (590, 380), DPI: (72, 72)'' \<and>
   stdout (trace (run (lab_env Written) (lab_fs tiny))) ! 0 = ''Before: (1, 1), DPI: None'' \<and>
   stdout (trace (run (lab_env Written) (lab_fs wide))) ! 0 = ''Before: (1180, 380), DPI: (144.0, 144.0)''"
proof -
  have ok1: "raised (run (lab_env Written) (lab_fs tiny)) = None"
    and ok2: "raised (run (lab_env Written) (lab_fs wide)) = None"
    by (simp_all add: lab_tiny_run lab_wide_run)
  have "stdout (trace (run (lab_env Written) (lab_fs tiny))) ! 0 = ''Before: (1, 1), DPI: None''"
    "stdout (trace (run (lab_env Written) (lab_fs wide))) ! 0 = ''Before: (1180, 380), DPI: (144.0, 144.0)''"
    by (simp_all add: lab_tiny_run lab_wide_run trace_def before_tiny before_wide)
  with C8_second_line_is_a_literal [OF ok1] C8_second_line_is_a_literal [OF ok2] ok1 ok2
  show ?thesis by simp
qed

text \<open>
  C9. In one environment, two runs that start from the same content at the fixed path end
  the same way: the same exception or none, the same content at the fixed path, the same
  lines on standard output, the same log. The rest of the file system has no influence
  (the two directories of the witness differ in another file).
\<close>

theorem C9_outcome_depends_on_the_input_file_only:
  assumes "fs1 src = fs2 src"
  shows "raised (run E fs1) = raised (run E fs2) \<and>
         disk (run E fs1) src = disk (run E fs2) src \<and>
         stdout (trace (run E fs1)) = stdout (trace (run E fs2)) \<and>
         trace (run E fs1) = trace (run E fs2)"
proof (cases "fs1 src")
  case None
  with assms have "fs2 src = None" by simp
  with None show ?thesis
    by (simp add: run_missing disk_def trace_def)
next
  case (Some b)
  show ?thesis
  proof (cases b)
    case (Opaque bytes)
    with Some assms have "fs1 src = Some (Opaque bytes)" "fs2 src = Some (Opaque bytes)"
      by simp_all
    then show ?thesis
      by (simp add: run_opaque disk_def trace_def)
  next
    case (Raster f)
    with Some assms have "fs1 src = Some (Raster f)" "fs2 src = Some (Raster f)"
      by simp_all
    then show ?thesis
      by (simp add: run_raster disk_def trace_def split: sum.split write_outcome.split)
  qed
qed

theorem C9_witness:
  "lab_fs wide src = [src \<mapsto> Raster wide] src \<and>
   lab_fs wide icon \<noteq> [src \<mapsto> Raster wide] icon \<and>
   raised (run (lab_env Written) (lab_fs wide)) = raised (run (lab_env Written) [src \<mapsto> Raster wide]) \<and>
   disk (run (lab_env Written) (lab_fs wide)) src = disk (run (lab_env Written) [src \<mapsto> Raster wide]) src \<and>
   stdout (trace (run (lab_env Written) (lab_fs wide))) =
     stdout (trace (run (lab_env Written) [src \<mapsto> Raster wide])) \<and>
   stdout (trace (run (lab_env Written) (lab_fs wide))) =
     [''Before: (1180, 380), DPI: (144.0, 144.0)'', ''After:  (590, 380), DPI: (72, 72)'']"
proof -
  have same: "lab_fs wide src = [src \<mapsto> Raster wide] src"
    by (simp add: lab_src)
  have other: "lab_fs wide icon \<noteq> [src \<mapsto> Raster wide] icon"
    using icon_not_src by (simp add: lab_icon)
  have "stdout (trace (run (lab_env Written) (lab_fs wide))) =
     [''Before: (1180, 380), DPI: (144.0, 144.0)'', ''After:  (590, 380), DPI: (72, 72)'']"
    by (simp add: lab_wide_run trace_def before_wide after_line_def)
  with C9_outcome_depends_on_the_input_file_only
    [of "lab_fs wide" "[src \<mapsto> Raster wide]" "lab_env Written", OF same] same other
  show ?thesis by simp
qed

text \<open>
  C10. The order of the effects. When the input decodes and \<open>resize\<close> returns, the
  \<open>Before\<close> line is printed before the disk is asked to write. If the write succeeds
  the log is open, \<open>Before\<close>, write, \<open>After\<close>, in this order. If the write is
  refused or fails part way, the run ends with \<open>OSError\<close> and standard output holds the
  \<open>Before\<close> line alone: the \<open>After\<close> line is not printed.
\<close>

theorem C10_before_then_write_then_after:
  assumes "fs src = Some (Raster f)"
    and "resize E (opened_as E f) (590, 380) LANCZOS = Inr im'"
  shows "case disk_write E src (encode E im' (72, 72)) of
           Written \<Rightarrow>
             raised (run E fs) = None \<and>
             trace (run E fs) =
               [Open src, Stdout (before_line E (opened_as E f)), Write src, Stdout after_line]
         | Denied \<Rightarrow>
             raised (run E fs) = Some OSError \<and>
             trace (run E fs) = [Open src, Stdout (before_line E (opened_as E f))] \<and>
             stdout (trace (run E fs)) = [before_line E (opened_as E f)] \<and>
             after_line \<notin> set (stdout (trace (run E fs)))
         | Torn left \<Rightarrow>
             raised (run E fs) = Some OSError \<and>
             trace (run E fs) = [Open src, Stdout (before_line E (opened_as E f))] \<and>
             stdout (trace (run E fs)) = [before_line E (opened_as E f)] \<and>
             after_line \<notin> set (stdout (trace (run E fs)))"
  using assms before_not_after [of E "opened_as E f"]
  by (auto simp add: run_raster trace_def split: write_outcome.split)

theorem C10_witness:
  "lab_fs tiny src = Some (Raster tiny) \<and>
   trace (run (lab_env Written) (lab_fs tiny)) =
     [Open src, Stdout ''Before: (1, 1), DPI: None'', Write src,
      Stdout ''After:  (590, 380), DPI: (72, 72)''] \<and>
   raised (run (lab_env Denied) (lab_fs tiny)) = Some OSError \<and>
   stdout (trace (run (lab_env Denied) (lab_fs tiny))) = [''Before: (1, 1), DPI: None''] \<and>
   raised (run (lab_env (Torn None)) (lab_fs tiny)) = Some OSError \<and>
   disk (run (lab_env (Torn None)) (lab_fs tiny)) src = None \<and>
   stdout (trace (run (lab_env (Torn None)) (lab_fs tiny))) = [''Before: (1, 1), DPI: None'']"
proof -
  have f: "lab_fs tiny src = Some (Raster tiny)"
    by (rule lab_src)
  have k: "resize (lab_env wo) (opened_as (lab_env wo) tiny) (590, 380) LANCZOS =
      Inr (tiny\<lparr>size_img := (590, 380), pixels := [(LANCZOS, (0, 0, 1, 1), (590, 380))]\<rparr>)" for wo
    by (simp add: lab_reported tiny_plain resize_other_size lab_kernel) (simp add: tiny_def)
  have gone: "disk (run (lab_env (Torn None)) (lab_fs tiny)) src = None"
    by (simp add: lab_tiny_run disk_def)
  from C10_before_then_write_then_after [of "lab_fs tiny" tiny "lab_env Written", OF f k]
    C10_before_then_write_then_after [of "lab_fs tiny" tiny "lab_env Denied", OF f k]
    C10_before_then_write_then_after [of "lab_fs tiny" tiny "lab_env (Torn None)", OF f k]
    f gone
  show ?thesis
    by (simp add: lab_disk_write lab_reported tiny_plain before_tiny after_line_def)
qed

end
